theory Spec2Isabelle
  imports Main "HOL-Library.Word"
begin

section \<open>Strings, numbers and errors of the host language\<close>

text \<open>
  The module is TypeScript, run as JavaScript. A string there is a sequence of 16-bit
  code units, so a string is a list of 16-bit words; \<open>str\<close> turns a literal of the
  source into one.
\<close>

type_synonym js_string = "16 word list"

definition str :: "string \<Rightarrow> js_string" where
  "str s = map (\<lambda>c. of_nat (of_char c)) s"

text \<open>
  A number is an IEEE double. The module never computes with one: it tests a decoded
  number for truthiness and, when a number ends up as an error message, renders it. A
  number is therefore carried as these two observations (whether it is neither zero nor
  NaN, and its rendering), which covers every double.
\<close>

datatype js_number = Number (nonzero: bool) (shown: js_string)

text \<open>A thrown value: an error object with its name and its message.\<close>

datatype error = Err (name: js_string) (message: js_string)

definition Error :: "js_string \<Rightarrow> error" where
  "Error msg = Err (str ''Error'') msg"

definition TypeError :: "js_string \<Rightarrow> error" where
  "TypeError msg = Err (str ''TypeError'') msg"

section \<open>Decoded JSON\<close>

text \<open>
  What \<open>response.json()\<close> resolves to. An object keeps its members in the order of the
  text; of two members with one key the later one is the object's property.
\<close>

datatype json =
    JNull
  | JBool bool
  | JNum js_number
  | JStr js_string
  | JArr "json list"
  | JObj "(js_string \<times> json) list"

definition own_property :: "(js_string \<times> json) list \<Rightarrow> js_string \<Rightarrow> json option" where
  "own_property kvs k = map_of (rev kvs) k"

text \<open>Truthiness, as \<open>||\<close> tests it; \<open>None\<close> stands for \<open>undefined\<close>.\<close>

fun truthy :: "json \<Rightarrow> bool" where
  "truthy JNull = False"
| "truthy (JBool b) = b"
| "truthy (JNum n) = nonzero n"
| "truthy (JStr s) = (s \<noteq> [])"
| "truthy (JArr xs) = True"
| "truthy (JObj kvs) = True"

text \<open>
  \<open>v.k\<close> for the names this module reads (\<open>candidates\<close>, \<open>content\<close>, \<open>parts\<close>,
  \<open>text\<close>, \<open>detail\<close>). No built-in prototype defines any of them and none is an index or
  \<open>length\<close>, so the read finds an own property of an object and \<open>undefined\<close> on
  everything else, except that reading a property of \<open>null\<close> throws a \<open>TypeError\<close>
  (its message, which names the property between single quotes, is the engine's).
\<close>

fun member :: "json \<Rightarrow> js_string \<Rightarrow> error + json option" where
  "member JNull k =
     Inl (TypeError (str ''Cannot read properties of null (reading '' @ [0x27] @ k @ [0x27]
       @ str '')''))"
| "member (JObj kvs) k = Inr (own_property kvs k)"
| "member v k = Inr None"

text \<open>\<open>v?.k\<close>: \<open>undefined\<close> when \<open>v\<close> is \<open>undefined\<close> or \<open>null\<close>, the read otherwise.\<close>

fun opt_member :: "json option \<Rightarrow> js_string \<Rightarrow> json option" where
  "opt_member None k = None"
| "opt_member (Some JNull) k = None"
| "opt_member (Some (JObj kvs)) k = own_property kvs k"
| "opt_member (Some v) k = None"

text \<open>
  \<open>v?.[0]\<close>: the first element of an array, the first code unit of a string (as a
  string), the property \<open>"0"\<close> of an object.
\<close>

fun opt_first :: "json option \<Rightarrow> json option" where
  "opt_first None = None"
| "opt_first (Some JNull) = None"
| "opt_first (Some (JArr xs)) = (case xs of [] \<Rightarrow> None | x # _ \<Rightarrow> Some x)"
| "opt_first (Some (JStr s)) = (case s of [] \<Rightarrow> None | x # _ \<Rightarrow> Some (JStr [x]))"
| "opt_first (Some (JObj kvs)) = own_property kvs (str ''0'')"
| "opt_first (Some v) = None"

text \<open>
  \<open>a || b\<close> where \<open>a\<close> is a decoded value or \<open>undefined\<close>.
\<close>

fun or_json :: "json option \<Rightarrow> json \<Rightarrow> json" where
  "or_json None b = b"
| "or_json (Some a) b = (if truthy a then a else b)"

text \<open>
  The conversion to a string that \<open>new Error(v)\<close> applies to its argument. An array
  joins its elements with commas, \<open>null\<close> elements as the empty string. An object
  renders through the inherited \<open>toString\<close>; an own member named \<open>toString\<close> hides
  it, is not callable, and the conversion throws.
\<close>

fun join :: "(error + js_string) list \<Rightarrow> error + js_string" where
  "join [] = Inr []"
| "join [x] = x"
| "join (x # y # ys) =
     (case x of
        Inl e \<Rightarrow> Inl e
      | Inr s \<Rightarrow> (case join (y # ys) of Inl e \<Rightarrow> Inl e | Inr t \<Rightarrow> Inr (s @ str '','' @ t)))"

fun to_string :: "json \<Rightarrow> error + js_string" where
  "to_string JNull = Inr (str ''null'')"
| "to_string (JBool b) = Inr (if b then str ''true'' else str ''false'')"
| "to_string (JNum n) = Inr (shown n)"
| "to_string (JStr s) = Inr s"
| "to_string (JArr xs) =
     join (map (\<lambda>x. case x of JNull \<Rightarrow> Inr [] | _ \<Rightarrow> to_string x) xs)"
| "to_string (JObj kvs) =
     (if own_property kvs (str ''toString'') \<noteq> None
      then Inl (TypeError (str ''Cannot convert object to primitive value''))
      else Inr (str ''[object Object]''))"

text \<open>A status code in a template literal: its decimal digits.\<close>

fun show_nat :: "nat \<Rightarrow> js_string" where
  "show_nat n =
     (if n < 10 then [of_nat (48 + n)] else show_nat (n div 10) @ [of_nat (48 + n mod 10)])"

declare show_nat.simps [simp del]

section \<open>The network\<close>

text \<open>
  Each public function performs one \<open>fetch\<close>. What the world answers is an input of the
  model: the promise rejects with an error, or resolves to a response with a status, whose
  \<open>json()\<close> in turn resolves to a decoded value or rejects. Logging
  (\<open>console.warn\<close>, \<open>console.error\<close>) changes no result and is left out.
\<close>

datatype body = Json json | Undecodable error

datatype response = Response (status: nat) (json: body)

datatype fetched = Rejected error | Resolved response

definition ok :: "response \<Rightarrow> bool" where
  "ok r \<longleftrightarrow> 200 \<le> status r \<and> status r \<le> 299"

section \<open>String.prototype.trim and the three patterns\<close>

text \<open>White space and line terminators: what \<open>\s\<close> matches and \<open>trim\<close> removes.\<close>

definition is_space :: "16 word \<Rightarrow> bool" where
  "is_space c \<longleftrightarrow>
     c \<in> {0x09, 0x0A, 0x0B, 0x0C, 0x0D, 0x20, 0xA0, 0x1680, 0x2028, 0x2029, 0x202F,
          0x205F, 0x3000, 0xFEFF}
     \<or> (0x2000 \<le> c \<and> c \<le> 0x200A)"

definition trim :: "js_string \<Rightarrow> js_string" where
  "trim s = rev (dropWhile is_space (rev (dropWhile is_space s)))"

text \<open>
  Under the \<open>i\<close> flag (without \<open>u\<close>) two code units match when their canonical forms
  are equal. The canonical form of an ASCII letter is its upper case; that of a code unit
  from 128 on is never below 128. The patterns here contain ASCII only, so for a
  comparison with a pattern character a code unit from 128 on may stand for itself.
\<close>

definition canonicalize :: "16 word \<Rightarrow> 16 word" where
  "canonicalize c = (if 0x61 \<le> c \<and> c \<le> 0x7A then c - 0x20 else c)"

fun ci_prefix :: "js_string \<Rightarrow> js_string \<Rightarrow> bool" where
  "ci_prefix [] s = True"
| "ci_prefix (x # xs) [] = False"
| "ci_prefix (x # xs) (y # ys) = (canonicalize x = canonicalize y \<and> ci_prefix xs ys)"

text \<open>
  The fragment of the pattern language the three expressions use, as a sequence of
  atoms: a literal, \<open>c*\<close> and \<open>c*?\<close> over a character class, the two ends of the
  capturing group, a lookahead \<open>(?=a|b)\<close> over alternatives, and \<open>$\<close> (no \<open>m\<close> flag:
  the end of the input).
\<close>

datatype cls = Space | AnyChar

datatype greed = Greedy | Lazy

datatype atom =
    Lit js_string
  | Star greed cls
  | Open
  | Close
  | Ahead "atom list list"
  | Eos

fun in_cls :: "cls \<Rightarrow> 16 word \<Rightarrow> bool" where
  "in_cls Space c = is_space c"
| "in_cls AnyChar c = True"

text \<open>Group 1 while matching: not entered, being filled, or closed.\<close>

datatype capture = Unset | Opened js_string | Closed js_string

fun consume :: "capture \<Rightarrow> js_string \<Rightarrow> capture" where
  "consume (Opened acc) xs = Opened (acc @ xs)"
| "consume c xs = c"

fun close :: "capture \<Rightarrow> capture" where
  "close (Opened acc) = Closed acc"
| "close c = c"

fun group1 :: "capture \<Rightarrow> js_string option" where
  "group1 (Closed s) = Some s"
| "group1 c = None"

text \<open>
  The backtracking matcher at one position: \<open>None\<close> is failure, \<open>Some g\<close> a match whose
  group 1 is \<open>g\<close>. A greedy star first takes one more character and falls back to the
  rest of the pattern; a lazy star first tries the rest of the pattern and takes one more
  character only when that fails.
\<close>

fun match_here :: "atom list \<Rightarrow> js_string \<Rightarrow> capture \<Rightarrow> js_string option option" where
  "match_here [] s c = Some (group1 c)"
| "match_here (Lit l # p) s c =
     (if ci_prefix l s then match_here p (drop (length l) s) (consume c (take (length l) s))
      else None)"
| "match_here (Star Greedy k # p) s c =
     (case s of
        [] \<Rightarrow> match_here p s c
      | x # xs \<Rightarrow>
          if in_cls k x
          then (case match_here (Star Greedy k # p) xs (consume c [x]) of
                  Some r \<Rightarrow> Some r
                | None \<Rightarrow> match_here p s c)
          else match_here p s c)"
| "match_here (Star Lazy k # p) s c =
     (case match_here p s c of
        Some r \<Rightarrow> Some r
      | None \<Rightarrow>
          (case s of
             [] \<Rightarrow> None
           | x # xs \<Rightarrow>
               if in_cls k x then match_here (Star Lazy k # p) xs (consume c [x]) else None))"
| "match_here (Open # p) s c = match_here p s (Opened [])"
| "match_here (Close # p) s c = match_here p s (close c)"
| "match_here (Ahead alts # p) s c =
     (if list_ex (\<lambda>a. match_here a s c \<noteq> None) alts then match_here p s c else None)"
| "match_here (Eos # p) s c = (if s = [] then match_here p s c else None)"

text \<open>
  \<open>String.prototype.match\<close> with a pattern without the \<open>g\<close> flag: the match at the
  leftmost position that has one, the end of the string included; \<open>None\<close> is \<open>null\<close>.
  Of the match array the module reads element 1 only.
\<close>

fun str_match :: "js_string \<Rightarrow> atom list \<Rightarrow> js_string option option" where
  "str_match [] re = match_here re [] Unset"
| "str_match (x # xs) re =
     (case match_here re (x # xs) Unset of Some r \<Rightarrow> Some r | None \<Rightarrow> str_match xs re)"

text \<open>
  \<open>/DESCRIPTION:\s*([\s\S]*?)(?=CAUSE:|$)/i\<close>,
  \<open>/CAUSE:\s*([\s\S]*?)(?=REMEDY:|$)/i\<close> and \<open>/REMEDY:\s*([\s\S]*?)$/i\<close>.
\<close>

definition descriptionRe :: "atom list" where
  "descriptionRe =
     [Lit (str ''DESCRIPTION:''), Star Greedy Space, Open, Star Lazy AnyChar, Close,
      Ahead [[Lit (str ''CAUSE:'')], [Eos]]]"

definition causeRe :: "atom list" where
  "causeRe =
     [Lit (str ''CAUSE:''), Star Greedy Space, Open, Star Lazy AnyChar, Close,
      Ahead [[Lit (str ''REMEDY:'')], [Eos]]]"

definition remedyRe :: "atom list" where
  "remedyRe =
     [Lit (str ''REMEDY:''), Star Greedy Space, Open, Star Lazy AnyChar, Close, Eos]"

text \<open>
  \<open>text.match(re)\<close>: \<open>text\<close> is a string, or a truthy decoded value that is none, and
  then has no callable \<open>match\<close>.
\<close>

fun match_method :: "json \<Rightarrow> atom list \<Rightarrow> error + js_string option option" where
  "match_method (JStr s) re = Inr (str_match s re)"
| "match_method v re = Inl (TypeError (str ''text.match is not a function''))"

text \<open>
  \<open>match?.[1]?.trim() || fallback\<close>: \<open>undefined\<close> when there is no match, the trimmed
  group otherwise, and the fallback when that is \<open>undefined\<close> or the empty string.
\<close>

fun opt_group1 :: "js_string option option \<Rightarrow> js_string option" where
  "opt_group1 None = None"
| "opt_group1 (Some g) = g"

fun opt_trim :: "js_string option \<Rightarrow> js_string option" where
  "opt_trim None = None"
| "opt_trim (Some s) = Some (trim s)"

fun or_string :: "js_string option \<Rightarrow> js_string \<Rightarrow> js_string" where
  "or_string None b = b"
| "or_string (Some a) b = (if a \<noteq> [] then a else b)"

section \<open>The module\<close>

record GeminiAssessment =
  description :: js_string
  cause :: js_string
  remedy :: js_string

text \<open>
  The table of \<open>getFallbackAssessment\<close> is an object literal, so besides its five own
  properties it inherits those of \<open>Object.prototype\<close>, and \<open>assessments[k]\<close> reads
  through the prototype chain. The function is typed to return a \<open>GeminiAssessment\<close>;
  what it returns at run time is either one, or the inherited member that the read found.
\<close>

datatype returned = Assessment GeminiAssessment | Inherited js_string

definition object_prototype :: "js_string list" where
  "object_prototype =
     map str [''constructor'', ''__defineGetter__'', ''__defineSetter__'', ''hasOwnProperty'',
       ''__lookupGetter__'', ''__lookupSetter__'', ''isPrototypeOf'', ''propertyIsEnumerable'',
       ''toString'', ''valueOf'', ''__proto__'', ''toLocaleString'']"

definition assessments :: "(js_string \<times> GeminiAssessment) list" where
  "assessments =
     [
      (str ''No DR'',
       \<lparr>description = str ''Your retinal scan shows no signs of diabetic retinopathy. The blood vessels in your retina appear healthy without any diabetes-related damage. This is an excellent result, but continued monitoring is important as diabetic retinopathy can develop over time in people with diabetes.'',
        cause = str ''Not applicable - no diabetic retinopathy detected. Your current diabetes management appears to be effectively protecting your eye health.'',
        remedy = str ''Maintain regular annual eye exams and keep your blood sugar levels well controlled.''\<rparr>),
      (str ''Mild'',
       \<lparr>description = str ''Your scan indicates mild non-proliferative diabetic retinopathy (NPDR). Small areas of balloon-like swelling called microaneurysms have been detected in the retina's blood vessels. At this early stage, there is typically no noticeable vision loss, but it signals that diabetes is beginning to affect your eyes.'',
        cause = str ''This early stage may be caused by prolonged periods of elevated blood sugar levels, which weaken the tiny blood vessels in the retina. Contributing factors could include inconsistent diabetes management, high blood pressure, or duration of diabetes.'',
        remedy = str ''Schedule a follow-up with your ophthalmologist within 6-12 months and focus on strict blood sugar control.''\<rparr>),
      (str ''Moderate'',
       \<lparr>description = str ''Moderate non-proliferative diabetic retinopathy has been detected. The blood vessels in your retina are showing more significant damage, with some vessels becoming blocked. This can lead to reduced blood flow to parts of your retina and may start affecting your vision quality.'',
        cause = str ''Progression to this stage is typically associated with chronic hyperglycemia over several years, combined with factors like uncontrolled hypertension, high cholesterol, or smoking. Inadequate diabetes management accelerates vessel damage.'',
        remedy = str ''Consult your ophthalmologist within 3-6 months for detailed examination and potential treatment planning.''\<rparr>),
      (str ''Severe'',
       \<lparr>description = str ''Your scan reveals severe non-proliferative diabetic retinopathy. Many blood vessels in your retina are blocked, depriving several areas of adequate blood supply. This significantly increases the risk of progression to proliferative diabetic retinopathy and potential vision loss.'',
        cause = str ''Severe retinopathy usually results from years of poorly controlled diabetes with persistent high blood sugar, often compounded by hypertension and kidney disease. The extensive blockage indicates significant cumulative damage to retinal blood vessels.'',
        remedy = str ''Seek urgent consultation with a retina specialist within 2-4 weeks for possible laser treatment or injections.''\<rparr>),
      (str ''Proliferative DR'',
       \<lparr>description = str ''Proliferative diabetic retinopathy (PDR), the most advanced stage, has been detected. New, abnormal blood vessels are growing on the retina's surface. These fragile vessels can leak blood into the eye and cause retinal detachment, leading to severe vision loss or blindness if untreated.'',
        cause = str ''PDR develops when severe oxygen deprivation triggers abnormal blood vessel growth. This typically results from long-standing diabetes with poor glycemic control, often combined with hypertension, nephropathy, and delayed treatment of earlier retinopathy stages.'',
        remedy = str ''Seek immediate medical attention from a retina specialist for urgent treatment including laser therapy or vitrectomy.''\<rparr>)
     ]"

text \<open>
  \<open>assessments[classification] || {...}\<close>: an own property is an assessment, an
  inherited one is a function (or, for \<open>__proto__\<close>, the prototype object), all of
  them truthy; only a name found nowhere reads as \<open>undefined\<close> and reaches the generic
  assessment.
\<close>

definition getFallbackAssessment :: "js_string \<Rightarrow> returned" where
  "getFallbackAssessment classification =
     (case map_of assessments classification of
        Some a \<Rightarrow> Assessment a
      | None \<Rightarrow>
          if classification \<in> set object_prototype then Inherited classification
          else Assessment
            \<lparr>description = classification @ str '' has been detected in your retinal scan. This condition affects the blood vessels in the retina and may impact your vision if left untreated. The severity level indicates how much the retina has been affected by diabetes-related changes.'',
             cause = str ''Diabetic retinopathy is generally caused by prolonged high blood sugar levels damaging the blood vessels in the retina. Contributing factors may include duration of diabetes, blood pressure, cholesterol levels, and overall diabetes management.'',
             remedy = str ''Please consult with an ophthalmologist for a comprehensive eye examination and treatment plan.''\<rparr>)"

text \<open>
  \<open>data.candidates?.[0]?.content?.parts?.[0]?.text || ""\<close>
\<close>

definition candidate_text :: "json \<Rightarrow> error + json" where
  "candidate_text data =
     (case member data (str ''candidates'') of
        Inl e \<Rightarrow> Inl e
      | Inr candidates \<Rightarrow>
          Inr (or_json
                 (opt_member
                    (opt_first
                       (opt_member (opt_member (opt_first candidates) (str ''content''))
                          (str ''parts'')))
                    (str ''text''))
                 (JStr [])))"

text \<open>
  The body of the \<open>try\<close> block of \<open>getGeminiAssessment\<close>. The prompt, with
  \<open>probability.toFixed(1)\<close> in it, only goes out with the request, and building it
  throws for no number.
\<close>

definition getGeminiAssessment_try :: "fetched \<Rightarrow> js_string \<Rightarrow> js_number \<Rightarrow> error + returned" where
  "getGeminiAssessment_try fetched classification probability =
     (case fetched of
        Rejected e \<Rightarrow> Inl e
      | Resolved response \<Rightarrow>
          if \<not> ok response then Inr (getFallbackAssessment classification)
          else
            (case json response of
               Undecodable e \<Rightarrow> Inl e
             | Json data \<Rightarrow>
                 (case candidate_text data of
                    Inl e \<Rightarrow> Inl e
                  | Inr text \<Rightarrow>
                      (case match_method text descriptionRe of
                         Inl e \<Rightarrow> Inl e
                       | Inr descriptionMatch \<Rightarrow>
                           (case match_method text causeRe of
                              Inl e \<Rightarrow> Inl e
                            | Inr causeMatch \<Rightarrow>
                                (case match_method text remedyRe of
                                   Inl e \<Rightarrow> Inl e
                                 | Inr remedyMatch \<Rightarrow>
                                     Inr (Assessment
                                       \<lparr>description =
                                          or_string (opt_trim (opt_group1 descriptionMatch))
                                            (str ''Assessment not available.''),
                                        cause =
                                          or_string (opt_trim (opt_group1 causeMatch))
                                            (str ''Cause assessment not available.''),
                                        remedy =
                                          or_string (opt_trim (opt_group1 remedyMatch))
                                            (str ''Please consult with a healthcare professional.'')\<rparr>)))))))"

text \<open>The whole function: the \<open>catch\<close> clause returns the fallback for any error.\<close>

definition getGeminiAssessment :: "fetched \<Rightarrow> js_string \<Rightarrow> js_number \<Rightarrow> error + returned" where
  "getGeminiAssessment fetched classification probability =
     (case getGeminiAssessment_try fetched classification probability of
        Inl error \<Rightarrow> Inr (getFallbackAssessment classification)
      | Inr v \<Rightarrow> Inr v)"

text \<open>
  \<open>analyzeImage\<close>: the file only goes out with the request. On a failure status the
  error body is decoded, \<open>{}\<close> standing in when that fails, and
  \<open>new Error(errorData.detail || `Server error: ${response.status}`)\<close> is thrown;
  the \<open>catch\<close> clause logs and throws the error again.
\<close>

type_synonym js_file = "8 word list"

definition analyzeImage_try :: "fetched \<Rightarrow> js_file \<Rightarrow> error + json" where
  "analyzeImage_try fetched file =
     (case fetched of
        Rejected e \<Rightarrow> Inl e
      | Resolved response \<Rightarrow>
          if \<not> ok response
          then
            (let errorData = (case json response of Json v \<Rightarrow> v | Undecodable e \<Rightarrow> JObj [])
             in case member errorData (str ''detail'') of
                  Inl e \<Rightarrow> Inl e
                | Inr detail \<Rightarrow>
                    (case to_string
                            (or_json detail
                               (JStr (str ''Server error: '' @ show_nat (status response)))) of
                       Inl e \<Rightarrow> Inl e
                     | Inr msg \<Rightarrow> Inl (Error msg)))
          else (case json response of Json v \<Rightarrow> Inr v | Undecodable e \<Rightarrow> Inl e))"

definition analyzeImage :: "fetched \<Rightarrow> js_file \<Rightarrow> error + json" where
  "analyzeImage fetched file =
     (case analyzeImage_try fetched file of Inl error \<Rightarrow> Inl error | Inr v \<Rightarrow> Inr v)"

text \<open>\<open>checkServerHealth\<close>: no status check; any error gives the fixed object.\<close>

definition unhealthy :: json where
  "unhealthy =
     JObj [(str ''status'', JStr (str ''unhealthy'')),
           (str ''message'', JStr (str ''Could not connect to server''))]"

definition checkServerHealth :: "fetched \<Rightarrow> error + json" where
  "checkServerHealth fetched =
     (case (case fetched of
              Rejected e \<Rightarrow> Inl e
            | Resolved response \<Rightarrow>
                (case json response of Json v \<Rightarrow> Inr v | Undecodable e \<Rightarrow> Inl e)) of
        Inl error \<Rightarrow> Inr unhealthy
      | Inr v \<Rightarrow> Inr v)"

section \<open>Notions the properties are stated with\<close>

text \<open>The position of the first occurrence of a label in a text, letter case ignored.\<close>

fun find_ci :: "js_string \<Rightarrow> js_string \<Rightarrow> nat option" where
  "find_ci l [] = (if ci_prefix l [] then Some 0 else None)"
| "find_ci l (x # xs) =
     (if ci_prefix l (x # xs) then Some 0 else map_option Suc (find_ci l xs))"

text \<open>Two strings that differ in letter case only.\<close>

definition same_ci :: "js_string \<Rightarrow> js_string \<Rightarrow> bool" where
  "same_ci a b \<longleftrightarrow> map canonicalize a = map canonicalize b"

text \<open>
  The text before the first occurrence of a label, letter case ignored; the whole text
  when the label does not occur.
\<close>

fun until_ci :: "js_string \<Rightarrow> js_string \<Rightarrow> js_string" where
  "until_ci n [] = []"
| "until_ci n (x # xs) = (if ci_prefix n (x # xs) then [] else x # until_ci n xs)"

text \<open>
  A blank section: the label \<open>l\<close> occurs, and after its first occurrence there is white
  space only, up to the end of the text or up to the label \<open>n\<close>.
\<close>

definition blank_section :: "js_string \<Rightarrow> js_string option \<Rightarrow> js_string \<Rightarrow> bool" where
  "blank_section l n t =
     (case find_ci l t of
        None \<Rightarrow> False
      | Some i \<Rightarrow>
          (let rest = dropWhile is_space (drop (i + length l) t)
           in rest = [] \<or> (case n of None \<Rightarrow> False | Some k \<Rightarrow> ci_prefix k rest)))"

text \<open>A match result that carries no text: no match, no group, or a group that trims to nothing.\<close>

fun no_text :: "js_string option option \<Rightarrow> bool" where
  "no_text None = True"
| "no_text (Some None) = True"
| "no_text (Some (Some g)) = (trim g = [])"

text \<open>
  The response body the generative endpoint is expected to send for a text \<open>t\<close>:
  \<open>{candidates: [{content: {parts: [{text: t}]}}]}\<close>.
\<close>

definition generated :: "js_string \<Rightarrow> json" where
  "generated t =
     JObj [(str ''candidates'',
            JArr [JObj [(str ''content'',
                         JObj [(str ''parts'', JArr [JObj [(str ''text'', JStr t)]])])]])]"

section \<open>Literals\<close>

lemma unit_eq_iff: "(of_nat (of_char c) :: 16 word) = of_nat (of_char d) \<longleftrightarrow> c = d"
proof -
  have small: "take_bit 16 (of_char c :: nat) = of_char c" for c :: char
    by (simp add: take_bit_nat_eq_self_iff order_less_trans [OF nat_of_char_less_256])
  show ?thesis
    by (simp add: word_of_nat_eq_iff small)
qed

lemma str_eq_iff: "str a = str b \<longleftrightarrow> a = b"
proof -
  have "inj (\<lambda>c. of_nat (of_char c) :: 16 word)"
    by (rule injI) (simp add: unit_eq_iff)
  then show ?thesis
    unfolding str_def by (simp add: inj_map_eq_map)
qed

lemmas eval_defs = ok_def generated_def candidate_text_def own_property_def descriptionRe_def
  causeRe_def remedyRe_def str_def canonicalize_def is_space_def trim_def

section \<open>The fallback table\<close>

lemma map_of_assessments_None:
  "k \<notin> set (map str [''No DR'', ''Mild'', ''Moderate'', ''Severe'', ''Proliferative DR'']) \<Longrightarrow>
   map_of assessments k = None"
  by (simp add: assessments_def)

text \<open>
  A label that is neither a key of the table nor a property of \<open>Object.prototype\<close>
  gets the generic assessment, with the label at the head of its description.
\<close>

lemma fallback_generic:
  assumes "classification \<notin> set (map str [''No DR'', ''Mild'', ''Moderate'', ''Severe'', ''Proliferative DR''])"
    and "classification \<notin> set object_prototype"
  shows "getFallbackAssessment classification = Assessment
     \<lparr>description = classification @ str '' has been detected in your retinal scan. This condition affects the blood vessels in the retina and may impact your vision if left untreated. The severity level indicates how much the retina has been affected by diabetes-related changes.'',
      cause = str ''Diabetic retinopathy is generally caused by prolonged high blood sugar levels damaging the blood vessels in the retina. Contributing factors may include duration of diabetes, blood pressure, cholesterol levels, and overall diabetes management.'',
      remedy = str ''Please consult with an ophthalmologist for a comprehensive eye examination and treatment plan.''\<rparr>"
  using assms by (simp add: getFallbackAssessment_def map_of_assessments_None)

text \<open>Every property name of \<open>Object.prototype\<close> reads as the inherited member.\<close>

lemma fallback_prototype_names:
  "classification \<in> set object_prototype \<Longrightarrow>
   getFallbackAssessment classification = Inherited classification"
  by (auto simp: getFallbackAssessment_def assessments_def object_prototype_def str_eq_iff)

text \<open>
  C3: for each of the five known labels, \<open>getFallbackAssessment\<close> returns the triple
  written for that label in the table, all three fields literally.
\<close>

theorem fallback_known_labels:
  "getFallbackAssessment (str ''No DR'') = Assessment
     \<lparr>description = str ''Your retinal scan shows no signs of diabetic retinopathy. The blood vessels in your retina appear healthy without any diabetes-related damage. This is an excellent result, but continued monitoring is important as diabetic retinopathy can develop over time in people with diabetes.'',
      cause = str ''Not applicable - no diabetic retinopathy detected. Your current diabetes management appears to be effectively protecting your eye health.'',
      remedy = str ''Maintain regular annual eye exams and keep your blood sugar levels well controlled.''\<rparr>
   \<and> getFallbackAssessment (str ''Mild'') = Assessment
     \<lparr>description = str ''Your scan indicates mild non-proliferative diabetic retinopathy (NPDR). Small areas of balloon-like swelling called microaneurysms have been detected in the retina's blood vessels. At this early stage, there is typically no noticeable vision loss, but it signals that diabetes is beginning to affect your eyes.'',
      cause = str ''This early stage may be caused by prolonged periods of elevated blood sugar levels, which weaken the tiny blood vessels in the retina. Contributing factors could include inconsistent diabetes management, high blood pressure, or duration of diabetes.'',
      remedy = str ''Schedule a follow-up with your ophthalmologist within 6-12 months and focus on strict blood sugar control.''\<rparr>
   \<and> getFallbackAssessment (str ''Moderate'') = Assessment
     \<lparr>description = str ''Moderate non-proliferative diabetic retinopathy has been detected. The blood vessels in your retina are showing more significant damage, with some vessels becoming blocked. This can lead to reduced blood flow to parts of your retina and may start affecting your vision quality.'',
      cause = str ''Progression to this stage is typically associated with chronic hyperglycemia over several years, combined with factors like uncontrolled hypertension, high cholesterol, or smoking. Inadequate diabetes management accelerates vessel damage.'',
      remedy = str ''Consult your ophthalmologist within 3-6 months for detailed examination and potential treatment planning.''\<rparr>
   \<and> getFallbackAssessment (str ''Severe'') = Assessment
     \<lparr>description = str ''Your scan reveals severe non-proliferative diabetic retinopathy. Many blood vessels in your retina are blocked, depriving several areas of adequate blood supply. This significantly increases the risk of progression to proliferative diabetic retinopathy and potential vision loss.'',
      cause = str ''Severe retinopathy usually results from years of poorly controlled diabetes with persistent high blood sugar, often compounded by hypertension and kidney disease. The extensive blockage indicates significant cumulative damage to retinal blood vessels.'',
      remedy = str ''Seek urgent consultation with a retina specialist within 2-4 weeks for possible laser treatment or injections.''\<rparr>
   \<and> getFallbackAssessment (str ''Proliferative DR'') = Assessment
     \<lparr>description = str ''Proliferative diabetic retinopathy (PDR), the most advanced stage, has been detected. New, abnormal blood vessels are growing on the retina's surface. These fragile vessels can leak blood into the eye and cause retinal detachment, leading to severe vision loss or blindness if untreated.'',
      cause = str ''PDR develops when severe oxygen deprivation triggers abnormal blood vessel growth. This typically results from long-standing diabetes with poor glycemic control, often combined with hypertension, nephropathy, and delayed treatment of earlier retinopathy stages.'',
      remedy = str ''Seek immediate medical attention from a retina specialist for urgent treatment including laser therapy or vitrectomy.''\<rparr>"
  by (simp add: getFallbackAssessment_def assessments_def str_eq_iff)

text \<open>
  C2: a label outside the five is claimed to get the generic assessment. For the label
  \<open>constructor\<close> the read \<open>assessments["constructor"]\<close> finds the inherited property,
  a function, and \<open>||\<close> returns it: the result is no assessment and has no description.
\<close>

theorem fallback_inherited:
  "getFallbackAssessment (str ''constructor'') = Inherited (str ''constructor'')"
  by (simp add: getFallbackAssessment_def assessments_def object_prototype_def str_eq_iff)

section \<open>Errors in getGeminiAssessment\<close>

text \<open>The function returns for every answer of the network, and every error of the
  \<open>try\<close> block ends in the fallback lookup.\<close>

lemma getGeminiAssessment_returns:
  "\<exists>v. getGeminiAssessment fetched classification probability = Inr v"
  by (simp add: getGeminiAssessment_def split: sum.splits)

lemma getGeminiAssessment_caught:
  "getGeminiAssessment_try fetched classification probability = Inl e \<Longrightarrow>
   getGeminiAssessment fetched classification probability =
     Inr (getFallbackAssessment classification)"
  by (simp add: getGeminiAssessment_def)

text \<open>
  C1: the function is claimed to resolve to a \<open>GeminiAssessment\<close> for every
  classification. With the classification \<open>constructor\<close> and a fetch that rejects, the
  error is caught and the fallback lookup is returned, which is the inherited function and
  not an assessment.
\<close>

theorem rejected_fetch_inherited:
  "getGeminiAssessment (Rejected e) (str ''constructor'') probability =
     Inr (Inherited (str ''constructor''))"
  by (simp add: getGeminiAssessment_def getGeminiAssessment_try_def getFallbackAssessment_def
      assessments_def object_prototype_def str_eq_iff)

text \<open>
  C6: when the response has a status outside 200..299, whatever its body,
  \<open>getGeminiAssessment\<close> returns the fallback lookup for the classification, and does
  not throw.
\<close>

theorem failure_status_fallback:
  "\<not> ok response \<Longrightarrow>
   getGeminiAssessment (Resolved response) classification probability =
     Inr (getFallbackAssessment classification)"
  by (simp add: getGeminiAssessment_def getGeminiAssessment_try_def)

theorem failure_status_fallback_witness:
  "\<not> ok (Response 503 (Json (generated (str ''DESCRIPTION: A CAUSE: B REMEDY: C''))))
   \<and> getGeminiAssessment
       (Resolved (Response 503 (Json (generated (str ''DESCRIPTION: A CAUSE: B REMEDY: C'')))))
       (str ''Moderate'') (Number True (str ''91.2'')) =
     Inr (getFallbackAssessment (str ''Moderate''))"
  using failure_status_fallback
    [of "Response 503 (Json (generated (str ''DESCRIPTION: A CAUSE: B REMEDY: C'')))"
      "str ''Moderate''" "Number True (str ''91.2'')"]
  by (simp add: ok_def)

section \<open>What the three patterns capture\<close>

lemma lazy_until:
  "match_here [Star Lazy AnyChar, Close, Ahead [[Lit n], [Eos]]] s (Opened acc) =
     Some (Some (acc @ until_ci n s))"
  by (induction s arbitrary: acc) auto

lemma lazy_end:
  "match_here [Star Lazy AnyChar, Close, Eos] s (Opened acc) = Some (Some (acc @ s))"
  by (induction s arbitrary: acc) auto

text \<open>
  When the rest of the pattern matches wherever it starts, the greedy \<open>\s*\<close> never gives
  a character back: it skips the white space and the rest matches from there.
\<close>

lemma greedy_space:
  assumes total: "\<And>s. match_here q s (Opened []) \<noteq> None"
  shows "match_here (Star Greedy Space # Open # q) s c = match_here q (dropWhile is_space s) (Opened [])"
proof (induction s arbitrary: c)
  case Nil
  show ?case by simp
next
  case (Cons x xs)
  show ?case
  proof (cases "is_space x")
    case True
    obtain r where r: "match_here q (dropWhile is_space xs) (Opened []) = Some r"
      using total [of "dropWhile is_space xs"] by blast
    have "match_here (Star Greedy Space # Open # q) xs (consume c [x]) = Some r"
      using Cons.IH [of "consume c [x]"] r by simp
    with True r show ?thesis by simp
  next
    case False
    then show ?thesis by simp
  qed
qed

text \<open>Likewise the search stops at the first occurrence of the label.\<close>

lemma match_at_first:
  assumes total: "\<And>s. match_here rest s Unset \<noteq> None"
  shows "str_match s (Lit l # rest) =
     (case find_ci l s of None \<Rightarrow> None | Some i \<Rightarrow> match_here rest (drop (i + length l) s) Unset)"
proof (induction s)
  case Nil
  show ?case by simp
next
  case (Cons x xs)
  show ?case
  proof (cases "ci_prefix l (x # xs)")
    case True
    obtain r where "match_here rest (drop (length l) (x # xs)) Unset = Some r"
      using total [of "drop (length l) (x # xs)"] by blast
    with True show ?thesis by simp
  next
    case False
    with Cons.IH show ?thesis by (simp split: option.splits)
  qed
qed

lemma section_match:
  "str_match s [Lit l, Star Greedy Space, Open, Star Lazy AnyChar, Close, Ahead [[Lit n], [Eos]]] =
     (case find_ci l s of
        None \<Rightarrow> None
      | Some i \<Rightarrow> Some (Some (until_ci n (dropWhile is_space (drop (i + length l) s)))))"
proof -
  have lazy: "match_here [Star Lazy AnyChar, Close, Ahead [[Lit n], [Eos]]] t (Opened []) \<noteq> None" for t
    by (simp only: lazy_until) simp
  have tail: "match_here [Star Greedy Space, Open, Star Lazy AnyChar, Close, Ahead [[Lit n], [Eos]]] t Unset
      = Some (Some (until_ci n (dropWhile is_space t)))" for t
    using greedy_space [OF lazy, of t Unset] by (simp only: lazy_until) simp
  have "match_here [Star Greedy Space, Open, Star Lazy AnyChar, Close, Ahead [[Lit n], [Eos]]] t Unset \<noteq> None"
    for t
    by (simp only: tail) simp
  from match_at_first [OF this, of s l] show ?thesis
    by (simp only: tail)
qed

lemma last_section_match:
  "str_match s [Lit l, Star Greedy Space, Open, Star Lazy AnyChar, Close, Eos] =
     (case find_ci l s of
        None \<Rightarrow> None
      | Some i \<Rightarrow> Some (Some (dropWhile is_space (drop (i + length l) s))))"
proof -
  have lazy: "match_here [Star Lazy AnyChar, Close, Eos] t (Opened []) \<noteq> None" for t
    by (simp only: lazy_end) simp
  have tail: "match_here [Star Greedy Space, Open, Star Lazy AnyChar, Close, Eos] t Unset
      = Some (Some (dropWhile is_space t))" for t
    using greedy_space [OF lazy, of t Unset] by (simp only: lazy_end) simp
  have "match_here [Star Greedy Space, Open, Star Lazy AnyChar, Close, Eos] t Unset \<noteq> None" for t
    by (simp only: tail) simp
  from match_at_first [OF this, of s l] show ?thesis
    by (simp only: tail)
qed

lemma description_match:
  "str_match t descriptionRe =
     (case find_ci (str ''DESCRIPTION:'') t of
        None \<Rightarrow> None
      | Some i \<Rightarrow>
          Some (Some (until_ci (str ''CAUSE:'')
            (dropWhile is_space (drop (i + length (str ''DESCRIPTION:'')) t)))))"
  unfolding descriptionRe_def by (simp only: section_match)

lemma cause_match:
  "str_match t causeRe =
     (case find_ci (str ''CAUSE:'') t of
        None \<Rightarrow> None
      | Some i \<Rightarrow>
          Some (Some (until_ci (str ''REMEDY:'')
            (dropWhile is_space (drop (i + length (str ''CAUSE:'')) t)))))"
  unfolding causeRe_def by (simp only: section_match)

lemma remedy_match:
  "str_match t remedyRe =
     (case find_ci (str ''REMEDY:'') t of
        None \<Rightarrow> None
      | Some i \<Rightarrow> Some (Some (dropWhile is_space (drop (i + length (str ''REMEDY:'')) t))))"
  unfolding remedyRe_def by (simp only: last_section_match)

lemma find_ci_prefix: "find_ci n s = Some i \<Longrightarrow> ci_prefix n (drop i s)"
  by (induction s arbitrary: i) (auto split: if_splits)

lemma find_ci_here: "find_ci n (u @ v) = Some (length u) \<Longrightarrow> until_ci n (u @ v) = u"
proof (induction u)
  case Nil
  then show ?case by (cases v) (auto split: if_splits)
next
  case (Cons x u)
  then show ?case by (auto split: if_splits)
qed

lemma find_ci_shift: "find_ci n (u @ w) = Some (length u + k) \<Longrightarrow> find_ci n w = Some k"
  by (induction u) (auto split: if_splits)

lemma until_ci_prefix: "ci_prefix n v \<Longrightarrow> until_ci n v = []"
  by (cases v) auto

text \<open>No letter case of \<open>C\<close> or \<open>R\<close> is white space, so a label ends the white space.\<close>

lemma cause_not_space: "ci_prefix (str ''CAUSE:'') v \<Longrightarrow> dropWhile is_space v = v"
  by (cases v) (auto simp: str_def canonicalize_def is_space_def split: if_splits)

lemma remedy_not_space: "ci_prefix (str ''REMEDY:'') v \<Longrightarrow> dropWhile is_space v = v"
  by (cases v) (auto simp: str_def canonicalize_def is_space_def split: if_splits)

lemma section_text:
  assumes n: "\<And>v. ci_prefix n v \<Longrightarrow> dropWhile is_space v = v"
    and f: "find_ci n (a @ v) = Some (length a)"
  shows "until_ci n (dropWhile is_space (a @ v)) = dropWhile is_space a"
proof -
  have "ci_prefix n v"
    using find_ci_prefix [OF f] by simp
  then have v: "dropWhile is_space v = v"
    by (rule n)
  have split: "dropWhile is_space (a @ v) = dropWhile is_space a @ v"
    using v by (induction a) auto
  have "find_ci n (takeWhile is_space a @ (dropWhile is_space a @ v))
      = Some (length (takeWhile is_space a) + length (dropWhile is_space a))"
    using f by (simp flip: append_assoc length_append)
  then have "find_ci n (dropWhile is_space a @ v) = Some (length (dropWhile is_space a))"
    by (rule find_ci_shift)
  then show ?thesis
    by (simp only: split find_ci_here)
qed

lemma trim_dropWhile: "trim (dropWhile is_space a) = trim a"
  by (simp add: trim_def)

lemma same_ci_length: "same_ci a b \<Longrightarrow> length a = length b"
  unfolding same_ci_def by (rule map_eq_imp_length_eq)

text \<open>On a success status with a text, the result is assembled from the three matches.\<close>

lemma parsed_text:
  assumes "ok response" and "json response = Json data" and "candidate_text data = Inr (JStr t)"
  shows "getGeminiAssessment (Resolved response) classification probability =
     Inr (Assessment
       \<lparr>description = or_string (opt_trim (opt_group1 (str_match t descriptionRe)))
          (str ''Assessment not available.''),
        cause = or_string (opt_trim (opt_group1 (str_match t causeRe)))
          (str ''Cause assessment not available.''),
        remedy = or_string (opt_trim (opt_group1 (str_match t remedyRe)))
          (str ''Please consult with a healthcare professional.'')\<rparr>)"
  using assms by (simp add: getGeminiAssessment_def getGeminiAssessment_try_def)

lemma blank_section_match:
  "blank_section l (Some n) t \<Longrightarrow>
   str_match t [Lit l, Star Greedy Space, Open, Star Lazy AnyChar, Close, Ahead [[Lit n], [Eos]]]
     = Some (Some [])"
  by (auto simp: blank_section_def section_match Let_def until_ci_prefix
      simp del: dropWhile_eq_Nil_conv split: option.splits)

lemma blank_last_section_match:
  "blank_section l None t \<Longrightarrow>
   str_match t [Lit l, Star Greedy Space, Open, Star Lazy AnyChar, Close, Eos] = Some (Some [])"
  by (auto simp: blank_section_def last_section_match Let_def
      simp del: dropWhile_eq_Nil_conv split: option.splits)

text \<open>
  C4, as the code has it: the text is \<open>pre d a c b r e\<close>, where \<open>d\<close>, \<open>c\<close> and \<open>r\<close> are
  the labels \<open>DESCRIPTION:\<close>, \<open>CAUSE:\<close> and \<open>REMEDY:\<close> in any letter case, each at the
  first place where its label occurs. Then the description is the trimmed \<open>a\<close>, the cause
  the trimmed \<open>b\<close> and the remedy the trimmed \<open>e\<close>, except that a field whose trimmed
  text is empty gets its default string.
\<close>

theorem well_formed_text_parsed:
  assumes "ok response" and "json response = Json data" and "candidate_text data = Inr (JStr t)"
    and t: "t = pre @ d @ a @ c @ b @ r @ e"
    and d: "same_ci d (str ''DESCRIPTION:'')"
    and c: "same_ci c (str ''CAUSE:'')"
    and r: "same_ci r (str ''REMEDY:'')"
    and fd: "find_ci (str ''DESCRIPTION:'') t = Some (length pre)"
    and fc: "find_ci (str ''CAUSE:'') t = Some (length (pre @ d @ a))"
    and fr: "find_ci (str ''REMEDY:'') t = Some (length (pre @ d @ a @ c @ b))"
  shows "getGeminiAssessment (Resolved response) classification probability =
     Inr (Assessment
       \<lparr>description = (if trim a \<noteq> [] then trim a else str ''Assessment not available.''),
        cause = (if trim b \<noteq> [] then trim b else str ''Cause assessment not available.''),
        remedy = (if trim e \<noteq> [] then trim e
                  else str ''Please consult with a healthcare professional.'')\<rparr>)"
proof -
  note ld = same_ci_length [OF d, symmetric] and lc = same_ci_length [OF c, symmetric]
    and lr = same_ci_length [OF r, symmetric]
  have "find_ci (str ''CAUSE:'') ((pre @ d) @ (a @ c @ b @ r @ e))
      = Some (length (pre @ d) + length a)"
    using fc by (simp add: t)
  then have fa: "find_ci (str ''CAUSE:'') (a @ c @ b @ r @ e) = Some (length a)"
    by (rule find_ci_shift)
  have da: "until_ci (str ''CAUSE:'') (dropWhile is_space (a @ c @ b @ r @ e))
      = dropWhile is_space a"
  proof (rule section_text)
    show "ci_prefix (str ''CAUSE:'') v \<Longrightarrow> dropWhile is_space v = v" for v
      by (rule cause_not_space)
    show "find_ci (str ''CAUSE:'') (a @ c @ b @ r @ e) = Some (length a)"
      by (rule fa)
  qed
  have "find_ci (str ''REMEDY:'') ((pre @ d @ a @ c) @ (b @ r @ e))
      = Some (length (pre @ d @ a @ c) + length b)"
    using fr by (simp add: t)
  then have fb: "find_ci (str ''REMEDY:'') (b @ r @ e) = Some (length b)"
    by (rule find_ci_shift)
  have db: "until_ci (str ''REMEDY:'') (dropWhile is_space (b @ r @ e))
      = dropWhile is_space b"
  proof (rule section_text)
    show "ci_prefix (str ''REMEDY:'') v \<Longrightarrow> dropWhile is_space v = v" for v
      by (rule remedy_not_space)
    show "find_ci (str ''REMEDY:'') (b @ r @ e) = Some (length b)"
      by (rule fb)
  qed
  have md: "str_match t descriptionRe = Some (Some (dropWhile is_space a))"
    using fd da by (simp add: description_match t ld)
  have mc: "str_match t causeRe = Some (Some (dropWhile is_space b))"
    using fc db by (simp add: cause_match t ld lc)
  have mr: "str_match t remedyRe = Some (Some (dropWhile is_space e))"
    using fr by (simp add: remedy_match t ld lc lr)
  show ?thesis
    using assms(1-3) by (simp add: parsed_text md mc mr trim_dropWhile)
qed

theorem well_formed_text_parsed_witness:
  "getGeminiAssessment
     (Resolved (Response 200 (Json (generated
        (str ''DESCRIPTION: A'' @ [0x0A] @ str ''cause: B'' @ [0x0A] @ str ''REMEDY: C'')))))
     (str ''Mild'') (Number True (str ''87.5'')) =
   Inr (Assessment \<lparr>description = str ''A'', cause = str ''B'', remedy = str ''C''\<rparr>)"
  using well_formed_text_parsed [of "Response 200 (Json (generated
        (str ''DESCRIPTION: A'' @ [0x0A] @ str ''cause: B'' @ [0x0A] @ str ''REMEDY: C'')))"
      "generated (str ''DESCRIPTION: A'' @ [0x0A] @ str ''cause: B'' @ [0x0A] @ str ''REMEDY: C'')"
      "str ''DESCRIPTION: A'' @ [0x0A] @ str ''cause: B'' @ [0x0A] @ str ''REMEDY: C''"
      "[]" "str ''DESCRIPTION:''" "str '' A'' @ [0x0A]" "str ''cause:''" "str '' B'' @ [0x0A]"
      "str ''REMEDY:''" "str '' C''" "str ''Mild''" "Number True (str ''87.5'')"]
  by (simp add: same_ci_def eval_defs)

text \<open>
  The claim as it is written fails where a section is blank: in
  \<open>DESCRIPTION: \nCAUSE: B\nREMEDY: C\<close> the text after the first label trims to the
  empty string, and the description returned is the default string instead.
\<close>

theorem blank_section_counterexample:
  "getGeminiAssessment
     (Resolved (Response 200 (Json (generated
        (str ''DESCRIPTION: '' @ [0x0A] @ str ''CAUSE: B'' @ [0x0A] @ str ''REMEDY: C'')))))
     (str ''Mild'') (Number True (str ''87.5'')) =
   Inr (Assessment \<lparr>description = str ''Assessment not available.'', cause = str ''B'',
     remedy = str ''C''\<rparr>)
   \<and> trim (str '' '' @ [0x0A]) \<noteq> str ''Assessment not available.''"
  by (simp add: getGeminiAssessment_def getGeminiAssessment_try_def eval_defs)

text \<open>
  C5: with the \<open>CAUSE:\<close> section absent the description is claimed to be the text of
  the \<open>DESCRIPTION\<close> section only. The description pattern stops at \<open>CAUSE:\<close> or at the
  end of the text, so in \<open>DESCRIPTION: A\nREMEDY: C\<close> it runs over the remedy section.
\<close>

theorem missing_cause_description_overruns:
  "getGeminiAssessment
     (Resolved (Response 200 (Json (generated
        (str ''DESCRIPTION: A'' @ [0x0A] @ str ''REMEDY: C'')))))
     (str ''Mild'') (Number True (str ''87.5'')) =
   Inr (Assessment \<lparr>description = str ''A'' @ [0x0A] @ str ''REMEDY: C'',
     cause = str ''Cause assessment not available.'', remedy = str ''C''\<rparr>)"
  by (simp add: getGeminiAssessment_def getGeminiAssessment_try_def eval_defs)

text \<open>
  C10: on a success status with a text, a field gets its default string whenever its
  pattern finds no match or captures a group that trims to the empty string; so it does
  when its label is followed by white space only (up to the next label or the end), and
  all three fields do when the text is empty.
\<close>

theorem empty_capture_default:
  assumes "ok response" and "json response = Json data" and "candidate_text data = Inr (JStr t)"
  shows "\<exists>a. getGeminiAssessment (Resolved response) classification probability
               = Inr (Assessment a)
     \<and> (no_text (str_match t descriptionRe)
            \<or> blank_section (str ''DESCRIPTION:'') (Some (str ''CAUSE:'')) t \<or> t = []
          \<longrightarrow> description a = str ''Assessment not available.'')
     \<and> (no_text (str_match t causeRe)
            \<or> blank_section (str ''CAUSE:'') (Some (str ''REMEDY:'')) t \<or> t = []
          \<longrightarrow> cause a = str ''Cause assessment not available.'')
     \<and> (no_text (str_match t remedyRe) \<or> blank_section (str ''REMEDY:'') None t \<or> t = []
          \<longrightarrow> remedy a = str ''Please consult with a healthcare professional.'')"
proof -
  have field: "or_string (opt_trim (opt_group1 mt)) dflt = dflt" if "no_text mt" for mt dflt
    using that by (cases mt rule: no_text.cases) simp_all
  have empty: "no_text (str_match [] descriptionRe)" "no_text (str_match [] causeRe)"
    "no_text (str_match [] remedyRe)"
    by (simp_all add: descriptionRe_def causeRe_def remedyRe_def str_def)
  have dsc: "no_text (str_match t descriptionRe)"
    if "blank_section (str ''DESCRIPTION:'') (Some (str ''CAUSE:'')) t"
    using blank_section_match [OF that] by (simp add: descriptionRe_def trim_def)
  have cse: "no_text (str_match t causeRe)"
    if "blank_section (str ''CAUSE:'') (Some (str ''REMEDY:'')) t"
    using blank_section_match [OF that] by (simp add: causeRe_def trim_def)
  have rmd: "no_text (str_match t remedyRe)" if "blank_section (str ''REMEDY:'') None t"
    using blank_last_section_match [OF that] by (simp add: remedyRe_def trim_def)
  show ?thesis
    by (simp only: parsed_text [OF assms]) (use field empty dsc cse rmd in auto)
qed

theorem empty_capture_default_witness:
  "blank_section (str ''DESCRIPTION:'') (Some (str ''CAUSE:''))
     (str ''DESCRIPTION:  '' @ [0x0A] @ str ''CAUSE: '' @ [0x0A] @ str ''REMEDY: '')
   \<and> blank_section (str ''CAUSE:'') (Some (str ''REMEDY:''))
     (str ''DESCRIPTION:  '' @ [0x0A] @ str ''CAUSE: '' @ [0x0A] @ str ''REMEDY: '')
   \<and> blank_section (str ''REMEDY:'') None
     (str ''DESCRIPTION:  '' @ [0x0A] @ str ''CAUSE: '' @ [0x0A] @ str ''REMEDY: '')
   \<and> (\<exists>a. getGeminiAssessment
         (Resolved (Response 200 (Json (generated
            (str ''DESCRIPTION:  '' @ [0x0A] @ str ''CAUSE: '' @ [0x0A] @ str ''REMEDY: '')))))
         (str ''Severe'') (Number True (str ''64.0'')) = Inr (Assessment a)
       \<and> description a = str ''Assessment not available.''
       \<and> cause a = str ''Cause assessment not available.''
       \<and> remedy a = str ''Please consult with a healthcare professional.'')"
proof -
  let ?t = "str ''DESCRIPTION:  '' @ [0x0A] @ str ''CAUSE: '' @ [0x0A] @ str ''REMEDY: ''"
  have b: "blank_section (str ''DESCRIPTION:'') (Some (str ''CAUSE:'')) ?t"
    "blank_section (str ''CAUSE:'') (Some (str ''REMEDY:'')) ?t"
    "blank_section (str ''REMEDY:'') None ?t"
    by (simp_all add: blank_section_def eval_defs)
  have h: "ok (Response 200 (Json (generated ?t)))"
    "json (Response 200 (Json (generated ?t))) = Json (generated ?t)"
    "candidate_text (generated ?t) = Inr (JStr ?t)"
    by (simp_all add: ok_def generated_def candidate_text_def own_property_def str_eq_iff)
  from empty_capture_default [OF h, of "str ''Severe''" "Number True (str ''64.0'')"] b
  show ?thesis by blast
qed

section \<open>analyzeImage\<close>

text \<open>
  Two answers on a failure status end in another error than the one built from the body:
  a body that decodes to \<open>null\<close>, where reading \<open>detail\<close> throws, and a truthy
  \<open>detail\<close> whose conversion to a string throws.
\<close>

lemma null_error_body_throws:
  "\<not> ok response \<Longrightarrow> json response = Json JNull \<Longrightarrow>
   \<exists>msg. analyzeImage (Resolved response) file = Inl (TypeError msg)"
  by (auto simp: analyzeImage_def analyzeImage_try_def)

lemma detail_conversion_throws:
  "\<not> ok response \<Longrightarrow> json response = Json v \<Longrightarrow> member v (str ''detail'') = Inr (Some d) \<Longrightarrow>
   truthy d \<Longrightarrow> to_string d = Inl e \<Longrightarrow> analyzeImage (Resolved response) file = Inl e"
  by (simp add: analyzeImage_def analyzeImage_try_def)

text \<open>
  C7, as the code has it: on a failure status, with a body that does not decode or that
  decodes to a value other than \<open>null\<close>, the call rejects with an error whose message is
  \<^item> the \<open>detail\<close> member of the decoded body when that is a non-empty string;
  \<^item> the conversion of \<open>detail\<close> to a string when \<open>detail\<close> is any other truthy value
    and that conversion does not throw;
  \<^item> \<open>Server error: \<close> followed by the status when the body does not decode, or the
    decoded value has no \<open>detail\<close> member or a falsy one (the empty string, \<open>null\<close>,
    \<open>false\<close>, zero).
  A body that decodes to \<open>null\<close> and a conversion that throws are outside this statement.
\<close>

theorem failure_status_message:
  assumes "\<not> ok response"
  shows "(json response = Json v \<and> v \<noteq> JNull
          \<and> member v (str ''detail'') = Inr (Some (JStr s)) \<and> s \<noteq> []
            \<longrightarrow> analyzeImage (Resolved response) file = Inl (Error s))
     \<and> (json response = Json v \<and> v \<noteq> JNull
          \<and> member v (str ''detail'') = Inr (Some d) \<and> truthy d \<and> to_string d = Inr msg
            \<longrightarrow> analyzeImage (Resolved response) file = Inl (Error msg))
     \<and> (json response = Undecodable e
            \<longrightarrow> analyzeImage (Resolved response) file =
                  Inl (Error (str ''Server error: '' @ show_nat (status response))))
     \<and> (json response = Json v \<and> v \<noteq> JNull
          \<and> (member v (str ''detail'') = Inr None
              \<or> (\<exists>d'. member v (str ''detail'') = Inr (Some d') \<and> \<not> truthy d'))
            \<longrightarrow> analyzeImage (Resolved response) file =
                  Inl (Error (str ''Server error: '' @ show_nat (status response))))"
  using assms by (auto simp: analyzeImage_def analyzeImage_try_def own_property_def)

theorem failure_status_message_witness:
  "analyzeImage
     (Resolved (Response 422 (Json (JObj [(str ''detail'', JStr (str ''bad file type''))])))) []
     = Inl (Error (str ''bad file type''))
   \<and> analyzeImage
       (Resolved (Response 400 (Json (JObj [(str ''detail'', JArr [JBool True, JNull])])))) []
     = Inl (Error (str ''true,''))
   \<and> analyzeImage (Resolved (Response 502 (Undecodable (Err (str ''SyntaxError'') [])))) []
     = Inl (Error (str ''Server error: 502''))
   \<and> analyzeImage (Resolved (Response 404 (Json (JObj [])))) []
     = Inl (Error (str ''Server error: 404''))
   \<and> analyzeImage (Resolved (Response 500 (Json (JObj [(str ''detail'', JNull)])))) []
     = Inl (Error (str ''Server error: 500''))"
  using
    failure_status_message
      [of "Response 422 (Json (JObj [(str ''detail'', JStr (str ''bad file type''))]))"
        "JObj [(str ''detail'', JStr (str ''bad file type''))]" "str ''bad file type''" "[]"
        JNull "[]" "Err [] []"]
    failure_status_message
      [of "Response 400 (Json (JObj [(str ''detail'', JArr [JBool True, JNull])]))"
        "JObj [(str ''detail'', JArr [JBool True, JNull])]" "[]" "[]"
        "JArr [JBool True, JNull]" "str ''true,''" "Err [] []"]
    failure_status_message
      [of "Response 502 (Undecodable (Err (str ''SyntaxError'') []))" JNull "[]" "[]" JNull "[]"
        "Err (str ''SyntaxError'') []"]
    failure_status_message
      [of "Response 404 (Json (JObj []))" "JObj []" "[]" "[]" JNull "[]" "Err [] []"]
    failure_status_message
      [of "Response 500 (Json (JObj [(str ''detail'', JNull)]))"
        "JObj [(str ''detail'', JNull)]" "[]" "[]" JNull "[]" "Err [] []"]
  by (simp add: ok_def own_property_def show_nat.simps str_def)

text \<open>
  The claim as it is written fails for a \<open>detail\<close> that is present and falsy: with
  status 500 and the body \<open>{"detail": ""}\<close> the message is the generic one.
\<close>

theorem empty_detail_counterexample:
  "analyzeImage (Resolved (Response 500 (Json (JObj [(str ''detail'', JStr [])])))) []
     = Inl (Error (str ''Server error: 500''))
   \<and> member (JObj [(str ''detail'', JStr [])]) (str ''detail'') = Inr (Some (JStr []))"
  by (simp add: analyzeImage_def analyzeImage_try_def ok_def own_property_def show_nat.simps
      str_def)

lemma checkServerHealth_returns: "\<exists>v. checkServerHealth fetched = Inr v"
  by (simp add: checkServerHealth_def split: sum.splits)

text \<open>
  C8: when the fetch of \<open>analyzeImage\<close> rejects, the call rejects with that very error,
  and so it does when reading the body of a success response rejects; a value is returned
  only for a success status with a body that decodes, and is that body, so no default
  result exists. The other two public functions return a value whatever the network
  answers.
\<close>

theorem only_analyzeImage_propagates:
  "analyzeImage (Rejected e) file = Inl e
   \<and> analyzeImage (Resolved (Response 200 (Undecodable e))) file = Inl e
   \<and> (analyzeImage fetched file = Inr v
        \<longleftrightarrow> (\<exists>st. fetched = Resolved (Response st (Json v)) \<and> 200 \<le> st \<and> st \<le> 299))
   \<and> (\<exists>v. getGeminiAssessment fetched classification probability = Inr v)
   \<and> (\<exists>v. checkServerHealth fetched = Inr v)"
proof -
  have "analyzeImage fetched file = Inr v
      \<longleftrightarrow> (\<exists>st. fetched = Resolved (Response st (Json v)) \<and> 200 \<le> st \<and> st \<le> 299)"
  proof (cases fetched)
    case (Rejected x)
    then show ?thesis by (simp add: analyzeImage_def analyzeImage_try_def)
  next
    case (Resolved response)
    obtain st bd where response: "response = Response st bd"
      by (cases response)
    show ?thesis
      unfolding Resolved response
      by (cases bd)
        (auto simp: analyzeImage_def analyzeImage_try_def ok_def Let_def split: sum.splits)
  qed
  then show ?thesis
    by (simp add: analyzeImage_def analyzeImage_try_def ok_def getGeminiAssessment_returns
        checkServerHealth_returns)
qed

section \<open>checkServerHealth\<close>

text \<open>
  C9: \<open>checkServerHealth\<close> never throws; it returns the decoded body as it is,
  whatever the status, and the fixed object
  \<open>{status: "unhealthy", message: "Could not connect to server"}\<close> when the fetch
  rejects or the body does not decode.
\<close>

theorem health_probe:
  "(\<exists>v. checkServerHealth fetched = Inr v)
   \<and> checkServerHealth (Resolved (Response st (Json v))) = Inr v
   \<and> checkServerHealth (Rejected e) = Inr unhealthy
   \<and> checkServerHealth (Resolved (Response st (Undecodable e))) = Inr unhealthy
   \<and> unhealthy =
       JObj [(str ''status'', JStr (str ''unhealthy'')),
             (str ''message'', JStr (str ''Could not connect to server''))]"
  by (simp add: checkServerHealth_def unhealthy_def split: sum.splits)

end
